theory Spec2Isabelle
  imports Complex_Main
begin

section \<open>Data model\<close>

text \<open>
  \<^verbatim>\<open>standardize_data.py\<close> works on a pandas DataFrame read from a csv file. The three
  columns the code reads are \<^verbatim>\<open>CName\<close> (galaxy name), \<^verbatim>\<open>Region\<close> (free text) and
  \<^verbatim>\<open>R\<close> (radius). A row is a record of these three cells and a table is the list of its
  rows; the position of a row in the list is its index label, since \<^verbatim>\<open>read_csv\<close> gives
  the frame the default index 0, 1, 2, ...

  Text cells are ASCII strings (as the labels of the data set are); on ASCII text the
  pattern \<^verbatim>\<open>\d\<close> is one of the ten characters 0..9. The radius is a number and is only
  ever compared.
\<close>

record row =
  CName :: string
  Region :: string
  R :: real

type_synonym table = "row list"

section \<open>Region names\<close>

text \<open>Python's \<^verbatim>\<open>sub in s\<close> on strings: \<^verbatim>\<open>sub\<close> occurs in \<^verbatim>\<open>s\<close> as a contiguous piece.\<close>

primrec str_in :: "string \<Rightarrow> string \<Rightarrow> bool" where
  "str_in sub [] = (sub = [])"
| "str_in sub (c # cs) = (take (length sub) (c # cs) = sub \<or> str_in sub cs)"

definition is_digit :: "char \<Rightarrow> bool" where
  "is_digit d = (d \<in> set ''0123456789'')"

text \<open>\<^verbatim>\<open>re.match(r"c\d", s)\<close>: \<^verbatim>\<open>re.match\<close> tries the pattern at the start of the string only.\<close>

fun re_match_c_digit :: "string \<Rightarrow> bool" where
  "re_match_c_digit (c # d # rest) = (c = CHR ''c'' \<and> is_digit d)"
| "re_match_c_digit s = False"

text \<open>The body of the loop of \<^verbatim>\<open>standardize_region_names\<close>: the new value of one Region cell.\<close>

definition standardize_region_name :: "string \<Rightarrow> string" where
  "standardize_region_name region =
     (if str_in ''co'' region then ''core''
      else if str_in ''ce'' region then ''center''
      else if str_in ''outsk'' region \<or> str_in ''ot'' region then ''outsk''
      else if str_in ''ic'' region then ''icl''
      else if re_match_c_digit region then ''core''
      else if str_in ''ou'' region then ''outer''
      else ''other'')"

text \<open>\<^verbatim>\<open>for index in range(0, max): data.loc[index, "Region"] = ...\<close>\<close>

definition standardize_region_names :: "table \<Rightarrow> table" where
  "standardize_region_names data =
     fold (\<lambda>index d. d[index := (d ! index)\<lparr>Region := standardize_region_name (Region (d ! index))\<rparr>])
       [0..<length data] data"

section \<open>Galaxy names\<close>

text \<open>
  \<^verbatim>\<open>name[-3:]\<close> is the last three characters (the whole string when it is shorter) and
  \<^verbatim>\<open>name[:-3]\<close> is the string without them. The test of the loop is
  \<^verbatim>\<open>name[-3:] == "reg"\<close>.
\<close>

definition ends_with_reg :: "string \<Rightarrow> bool" where
  "ends_with_reg name = (drop (length name - 3) name = ''reg'')"

text \<open>The body of the loop of \<^verbatim>\<open>standardize_CNames\<close>: the new value of one CName cell.\<close>

definition standardize_CName :: "string \<Rightarrow> string" where
  "standardize_CName name =
     (if ends_with_reg name then take (length name - 3) name else name)"

text \<open>\<^verbatim>\<open>for index in range(0, max): ... data.loc[index, "CName"] = data.loc[index, "CName"][:-3]\<close>\<close>

definition standardize_CNames :: "table \<Rightarrow> table" where
  "standardize_CNames data =
     fold (\<lambda>index d. d[index := (d ! index)\<lparr>CName := standardize_CName (CName (d ! index))\<rparr>])
       [0..<length data] data"

section \<open>Galaxies with several cores\<close>

text \<open>\<^verbatim>\<open>Series.unique()\<close>: the distinct values, in the order of their first appearance.\<close>

fun unique :: "'a list \<Rightarrow> 'a list" where
  "unique [] = []"
| "unique (x # xs) = x # unique (filter (\<lambda>y. y \<noteq> x) xs)"

text \<open>
  \<^verbatim>\<open>new_df[(new_df["CName"] == name) & (new_df["Region"] == "core")]\<close>: the selected rows,
  each with the index label it has in \<^verbatim>\<open>new_df\<close>. After \<^verbatim>\<open>reset_index\<close> that label is
  the cell \<^verbatim>\<open>temp_df.loc[k, "index"]\<close>, here the first component of the \<open>k\<close>-th pair.
\<close>

definition select_core :: "table \<Rightarrow> string \<Rightarrow> (nat \<times> row) list" where
  "select_core new_df name =
     filter (\<lambda>(i, r). CName r = name \<and> Region r = ''core'') (zip [0..<length new_df] new_df)"

text \<open>\<^verbatim>\<open>DataFrame.sort_values(by = "R")\<close>: a new frame, sorted by R; the receiver is not changed.\<close>

definition sort_values :: "(nat \<times> row) list \<Rightarrow> (nat \<times> row) list" where
  "sort_values df = sort_key (\<lambda>(i, r). R r) df"

text \<open>
  \<^verbatim>\<open>"core" + chr(ord('A') + index)\<close>. The characters of HOL are the 256 bytes, so the
  letter is the one Python gives as long as \<^verbatim>\<open>ord('A') + index\<close> is below 256, that is
  for the first 191 cores of a galaxy.
\<close>

definition core_label :: "nat \<Rightarrow> string" where
  "core_label index = ''core'' @ [char_of (of_char CHR ''A'' + index)]"

text \<open>The inner loop: \<^verbatim>\<open>new_df.loc[temp_df.loc[index, "index"], "Region"] = "core" + chr(...)\<close>\<close>

definition rename_cores :: "(nat \<times> row) list \<Rightarrow> table \<Rightarrow> table" where
  "rename_cores temp_df new_df =
     fold (\<lambda>index d. d[fst (temp_df ! index) := (d ! fst (temp_df ! index))\<lparr>Region := core_label index\<rparr>])
       [0..<length temp_df] new_df"

text \<open>
  One turn of the loop over the galaxy names. The source calls \<^verbatim>\<open>temp_df.sort_values(by = "R")\<close>
  as a statement: the sorted frame it returns is not bound to anything, and \<^verbatim>\<open>temp_df\<close>
  goes on to the inner loop as it was selected. The message printed for more than 26 cores
  does not touch the table.
\<close>

definition fix_galaxy :: "string \<Rightarrow> table \<Rightarrow> table" where
  "fix_galaxy name new_df =
     (let temp_df = select_core new_df name in
      if length temp_df > 1 then
        (let unused = sort_values temp_df in rename_cores temp_df new_df)
      else new_df)"

definition fix_mult_core :: "table \<Rightarrow> table" where
  "fix_mult_core data = fold fix_galaxy (unique (map CName data)) data"

section \<open>The pipeline\<close>

text \<open>
  \<^verbatim>\<open>set_index('CName', inplace=True)\<close> makes the CName column the index of the frame:
  every row is now found under its galaxy name, and the other cells stay as they are, in
  the same order. \<^verbatim>\<open>loc\<close> is the lookup by index label; a label that several rows carry
  gives all of them.
\<close>

type_synonym keyed_table = "(string \<times> string \<times> real) list"

definition set_index :: "table \<Rightarrow> keyed_table" where
  "set_index data = map (\<lambda>r. (CName r, Region r, R r)) data"

definition loc :: "keyed_table \<Rightarrow> string \<Rightarrow> (string \<times> real) list" where
  "loc df label = map snd (filter (\<lambda>(k, cells). k = label) df)"

text \<open>
  \<^verbatim>\<open>pd.read_csv\<close> is not part of the repository: it is a parameter of the model. It either
  raises or gives a frame, and nothing makes that frame have the columns the code names.
  A frame therefore records which of the three columns the file has; in its rows, the
  cell of a column that is absent is a placeholder that no test looks at on a path that
  returns.

  The source has no \<^verbatim>\<open>try\<close>: whatever is raised leaves \<^verbatim>\<open>fix_data\<close>. The places that raise
  for an absent column are the accesses themselves:
  \<^item> \<^verbatim>\<open>data.loc[index, "Region"]\<close> (line 139), reached when the frame has a row;
  \<^item> \<^verbatim>\<open>new_df.CName\<close> (line 64), always reached;
  \<^item> \<^verbatim>\<open>new_df["Region"]\<close> (line 71), reached for every galaxy name;
  \<^item> \<^verbatim>\<open>temp_df.sort_values(by = "R")\<close> (line 77), reached for a galaxy with two or more cores;
  \<^item> \<^verbatim>\<open>data.loc[index, "CName"]\<close> (line 114), reached when the frame has a row;
  \<^item> \<^verbatim>\<open>set_index('CName')\<close> (line 47), always reached.
\<close>

datatype column = CName_col | Region_col | R_col

text \<open>
  \<open>ReadError\<close> stands for whatever \<^verbatim>\<open>pd.read_csv\<close> raises; \<^verbatim>\<open>KeyError\<close> is raised by
  \<^verbatim>\<open>loc\<close>, by \<^verbatim>\<open>df[...]\<close>, by \<^verbatim>\<open>sort_values\<close> and by \<^verbatim>\<open>set_index\<close> for a label that is not
  a column, and \<^verbatim>\<open>AttributeError\<close> by the attribute access \<^verbatim>\<open>new_df.CName\<close>.
\<close>

datatype error = ReadError | KeyError column | AttributeError column

record frame =
  columns :: "column set"
  body :: table

text \<open>
  The four steps of \<^verbatim>\<open>fix_data\<close> on a frame that may lack columns: each raises at the
  accesses listed above and otherwise does what the step does on the rows.
\<close>

definition standardize_region_names_df :: "frame \<Rightarrow> error + frame" where
  "standardize_region_names_df data =
     (if body data \<noteq> [] \<and> Region_col \<notin> columns data then Inl (KeyError Region_col)
      else Inr (data\<lparr>body := standardize_region_names (body data)\<rparr>))"

definition fix_galaxy_df :: "column set \<Rightarrow> string \<Rightarrow> table \<Rightarrow> error + table" where
  "fix_galaxy_df cols name new_df =
     (if Region_col \<notin> cols then Inl (KeyError Region_col)
      else if length (select_core new_df name) > 1 \<and> R_col \<notin> cols then Inl (KeyError R_col)
      else Inr (fix_galaxy name new_df))"

fun fold_err :: "('a \<Rightarrow> 's \<Rightarrow> error + 's) \<Rightarrow> 'a list \<Rightarrow> 's \<Rightarrow> error + 's" where
  "fold_err f [] s = Inr s"
| "fold_err f (x # xs) s = (case f x s of Inl e \<Rightarrow> Inl e | Inr s' \<Rightarrow> fold_err f xs s')"

definition fix_mult_core_df :: "frame \<Rightarrow> error + frame" where
  "fix_mult_core_df data =
     (if CName_col \<notin> columns data then Inl (AttributeError CName_col)
      else case fold_err (fix_galaxy_df (columns data)) (unique (map CName (body data))) (body data) of
             Inl e \<Rightarrow> Inl e
           | Inr new_df \<Rightarrow> Inr (data\<lparr>body := new_df\<rparr>))"

definition standardize_CNames_df :: "frame \<Rightarrow> error + frame" where
  "standardize_CNames_df data =
     (if body data \<noteq> [] \<and> CName_col \<notin> columns data then Inl (KeyError CName_col)
      else Inr (data\<lparr>body := standardize_CNames (body data)\<rparr>))"

definition set_index_df :: "frame \<Rightarrow> error + keyed_table" where
  "set_index_df data =
     (if CName_col \<notin> columns data then Inl (KeyError CName_col)
      else Inr (set_index (body data)))"

definition fix_data :: "('csv \<Rightarrow> error + frame) \<Rightarrow> 'csv \<Rightarrow> error + keyed_table" where
  "fix_data read_csv csv =
     (case read_csv csv of Inl e \<Rightarrow> Inl e | Inr loaded \<Rightarrow>
      case standardize_region_names_df loaded of Inl e \<Rightarrow> Inl e | Inr named \<Rightarrow>
      case fix_mult_core_df named of Inl e \<Rightarrow> Inl e | Inr labelled \<Rightarrow>
      case standardize_CNames_df labelled of Inl e \<Rightarrow> Inl e | Inr cleaned \<Rightarrow>
      set_index_df cleaned)"

section \<open>The rule set of the specification\<close>




section \<open>The substring test\<close>

text \<open>\<open>str_in\<close> is the test that the text has the piece somewhere between a front and a rest.\<close>

lemma str_in_iff: "str_in sub s \<longleftrightarrow> (\<exists>ps ss. s = ps @ sub @ ss)"
proof (induction s)
  case Nil
  then show ?case by auto
next
  case (Cons c cs)
  show ?case
  proof
    assume "str_in sub (c # cs)"
    then consider "take (length sub) (c # cs) = sub" | "str_in sub cs" by auto
    then show "\<exists>ps ss. c # cs = ps @ sub @ ss"
    proof cases
      case 1
      then have "c # cs = [] @ sub @ drop (length sub) (c # cs)"
        by (metis append_Nil append_take_drop_id)
      then show ?thesis by blast
    next
      case 2
      then obtain ps ss where "cs = ps @ sub @ ss" using Cons.IH by blast
      then have "c # cs = (c # ps) @ sub @ ss" by simp
      then show ?thesis by blast
    qed
  next
    assume "\<exists>ps ss. c # cs = ps @ sub @ ss"
    then obtain ps ss where eq: "c # cs = ps @ sub @ ss" by blast
    show "str_in sub (c # cs)"
    proof (cases ps)
      case Nil
      then have "take (length sub) (c # cs) = sub"
        using eq by (metis append_Nil append_eq_conv_conj)
      then show ?thesis by simp
    next
      case (Cons p ps')
      then have "cs = ps' @ sub @ ss" using eq by simp
      then have "str_in sub cs" using Cons.IH by blast
      then show ?thesis by simp
    qed
  qed
qed

section \<open>The row loops as maps\<close>

text \<open>
  A loop that visits the indices 0, 1, ... in turn and rewrites the row at each from that
  row alone does to the table what \<open>map\<close> does.
\<close>

lemma fold_update_take:
  "n \<le> length xs \<Longrightarrow>
     fold (\<lambda>i d. d[i := g (d ! i)]) [0..<n] xs = map g (take n xs) @ drop n xs"
proof (induction n)
  case 0
  then show ?case by simp
next
  case (Suc n)
  then have n: "n < length xs" by simp
  have "fold (\<lambda>i d. d[i := g (d ! i)]) [0..<Suc n] xs =
        (map g (take n xs) @ drop n xs)[n := g ((map g (take n xs) @ drop n xs) ! n)]"
    using Suc by simp
  also have "(map g (take n xs) @ drop n xs) ! n = xs ! n"
    using n by (simp add: nth_append)
  also have "(map g (take n xs) @ drop n xs)[n := g (xs ! n)] =
             map g (take n xs) @ (drop n xs)[0 := g (xs ! n)]"
    using n by (simp add: list_update_append)
  also have "(drop n xs)[0 := g (xs ! n)] = g (xs ! n) # drop (Suc n) xs"
    using n by (simp add: Cons_nth_drop_Suc [symmetric])
  also have "map g (take n xs) @ g (xs ! n) # drop (Suc n) xs =
             map g (take (Suc n) xs) @ drop (Suc n) xs"
    using n by (simp add: take_Suc_conv_app_nth)
  finally show ?case .
qed

lemma fold_update_map:
  "fold (\<lambda>i d. d[i := g (d ! i)]) [0..<length xs] xs = map g xs"
  by (simp add: fold_update_take)

lemma standardize_region_names_map:
  "standardize_region_names data =
     map (\<lambda>r. r\<lparr>Region := standardize_region_name (Region r)\<rparr>) data"
  unfolding standardize_region_names_def
  by (rule fold_update_map [of "\<lambda>r. r\<lparr>Region := standardize_region_name (Region r)\<rparr>"])

lemma standardize_CNames_map:
  "standardize_CNames data =
     map (\<lambda>r. r\<lparr>CName := standardize_CName (CName r)\<rparr>) data"
  unfolding standardize_CNames_def
  by (rule fold_update_map [of "\<lambda>r. r\<lparr>CName := standardize_CName (CName r)\<rparr>"])



section \<open>Region canonicalization\<close>



lemma standardize_region_name_labels:
  "standardize_region_name ''core'' = ''core''"
  "standardize_region_name ''center'' = ''center''"
  "standardize_region_name ''outer'' = ''outer''"
  "standardize_region_name ''outsk'' = ''outsk''"
  "standardize_region_name ''icl'' = ''icl''"
  "standardize_region_name ''other'' = ''outsk''"
  by (simp_all add: standardize_region_name_def)

text \<open>
  Claim C4, as the code has it. Run on a table that is already canonical,
  \<^verbatim>\<open>standardize_region_names\<close> leaves every row whose Region is \<^verbatim>\<open>core\<close>, \<^verbatim>\<open>center\<close>,
  \<^verbatim>\<open>outer\<close>, \<^verbatim>\<open>outsk\<close> or \<^verbatim>\<open>icl\<close> as it is. The sixth label is not a fixed point:
  \<^verbatim>\<open>other\<close> contains \<^verbatim>\<open>ot\<close>, so the third rule rewrites it to \<^verbatim>\<open>outsk\<close>.
\<close>

theorem canonical_labels_fixed:
  "i < length data \<Longrightarrow>
     (Region (data ! i) \<in> {''core'', ''center'', ''outer'', ''outsk'', ''icl''} \<longrightarrow>
        standardize_region_names data ! i = data ! i) \<and>
     (Region (data ! i) = ''other'' \<longrightarrow>
        Region (standardize_region_names data ! i) = ''outsk'')"
proof (intro conjI impI)
  assume i: "i < length data"
  {
    assume "Region (data ! i) \<in> {''core'', ''center'', ''outer'', ''outsk'', ''icl''}"
    then have "standardize_region_name (Region (data ! i)) = Region (data ! i)"
      by (elim insertE emptyE) (simp_all only: standardize_region_name_labels)
    then show "standardize_region_names data ! i = data ! i"
      using i by (simp add: standardize_region_names_map)
  }
  {
    assume "Region (data ! i) = ''other''"
    then show "Region (standardize_region_names data ! i) = ''outsk''"
      using i by (simp add: standardize_region_names_map standardize_region_name_labels)
  }
qed

text \<open>A table with an \<^verbatim>\<open>icl\<close> row, which stays, and an \<^verbatim>\<open>other\<close> row, which becomes \<^verbatim>\<open>outsk\<close>.\<close>

theorem canonical_labels_fixed_witness:
  "1 < length [\<lparr>CName = ''G'', Region = ''icl'', R = 1\<rparr>, \<lparr>CName = ''G'', Region = ''other'', R = 2\<rparr>] \<and>
   standardize_region_names
     [\<lparr>CName = ''G'', Region = ''icl'', R = 1\<rparr>, \<lparr>CName = ''G'', Region = ''other'', R = 2\<rparr>] ! 0 =
     \<lparr>CName = ''G'', Region = ''icl'', R = 1\<rparr> \<and>
   Region (standardize_region_names
     [\<lparr>CName = ''G'', Region = ''icl'', R = 1\<rparr>, \<lparr>CName = ''G'', Region = ''other'', R = 2\<rparr>] ! 1) =
     ''outsk''"
  using canonical_labels_fixed
      [of 0 "[\<lparr>CName = ''G'', Region = ''icl'', R = 1\<rparr>, \<lparr>CName = ''G'', Region = ''other'', R = 2\<rparr>]"]
    canonical_labels_fixed
      [of 1 "[\<lparr>CName = ''G'', Region = ''icl'', R = 1\<rparr>, \<lparr>CName = ''G'', Region = ''other'', R = 2\<rparr>]"]
  by simp

text \<open>
  Claim C4 as stated fails at the label \<^verbatim>\<open>other\<close>: the one-row table whose Region is
  \<^verbatim>\<open>other\<close> comes back with Region \<^verbatim>\<open>outsk\<close>.
\<close>

theorem other_not_fixed:
  "map Region (standardize_region_names [\<lparr>CName = ''G'', Region = ''other'', R = 1\<rparr>]) = [''outsk''] \<and>
   map Region (standardize_region_names [\<lparr>CName = ''G'', Region = ''other'', R = 1\<rparr>]) \<noteq>
   map Region [\<lparr>CName = ''G'', Region = ''other'', R = 1\<rparr>]"
  by (simp add: standardize_region_names_map standardize_region_name_labels)

lemma re_match_c_digit_iff:
  "re_match_c_digit s \<longleftrightarrow> (\<exists>d rest. s = CHR ''c'' # d # rest \<and> is_digit d)"
  by (cases s rule: re_match_c_digit.cases) auto

text \<open>
  Claim C9. The rule for the letter c and a digit looks at the first two characters of
  the raw Region only. For a row whose Region passes none of the four rules before it,
  the result is \<^verbatim>\<open>core\<close> exactly when the text begins with c and a digit; a text that has
  such a pair further on only goes to the rules that remain, \<^verbatim>\<open>outer\<close> when it contains
  \<^verbatim>\<open>ou\<close> and \<^verbatim>\<open>other\<close> when it does not.
\<close>

theorem c_digit_rule_anchored:
  assumes "i < length data"
    and "\<not> str_in ''co'' (Region (data ! i))" "\<not> str_in ''ce'' (Region (data ! i))"
    and "\<not> str_in ''outsk'' (Region (data ! i))" "\<not> str_in ''ot'' (Region (data ! i))"
    and "\<not> str_in ''ic'' (Region (data ! i))"
  shows "Region (standardize_region_names data ! i) =
           (if \<exists>d rest. Region (data ! i) = CHR ''c'' # d # rest \<and> is_digit d then ''core''
            else if str_in ''ou'' (Region (data ! i)) then ''outer'' else ''other'')"
  using assms
  by (simp add: standardize_region_names_map standardize_region_name_def re_match_c_digit_iff)

text \<open>\<^verbatim>\<open>xc3\<close> has the pair in second place and becomes \<^verbatim>\<open>other\<close>; \<^verbatim>\<open>c3\<close> becomes \<^verbatim>\<open>core\<close>.\<close>

theorem c_digit_rule_anchored_witness:
  "Region (standardize_region_names [\<lparr>CName = ''G'', Region = ''xc3'', R = 1\<rparr>] ! 0) = ''other'' \<and>
   Region (standardize_region_names [\<lparr>CName = ''G'', Region = ''c3'', R = 1\<rparr>] ! 0) = ''core''"
  using c_digit_rule_anchored [of 0 "[\<lparr>CName = ''G'', Region = ''xc3'', R = 1\<rparr>]"]
    c_digit_rule_anchored [of 0 "[\<lparr>CName = ''G'', Region = ''c3'', R = 1\<rparr>]"]
  by (simp add: is_digit_def)

section \<open>Identifier canonicalization\<close>

lemma ends_with_reg_iff: "ends_with_reg name \<longleftrightarrow> (\<exists>p. name = p @ ''reg'')"
proof
  assume "ends_with_reg name"
  then have "name = take (length name - 3) name @ ''reg''"
    unfolding ends_with_reg_def by (metis append_take_drop_id)
  then show "\<exists>p. name = p @ ''reg''" ..
next
  assume "\<exists>p. name = p @ ''reg''"
  then show "ends_with_reg name"
    by (auto simp: ends_with_reg_def)
qed

lemma standardize_CName_append: "standardize_CName (p @ ''reg'') = p"
  by (simp add: standardize_CName_def ends_with_reg_def)

lemma standardize_CName_other:
  "\<nexists>p. name = p @ ''reg'' \<Longrightarrow> standardize_CName name = name"
  by (simp add: standardize_CName_def ends_with_reg_iff)

lemma standardize_CName_short:
  "length name < 3 \<Longrightarrow> standardize_CName name = name"
  by (rule standardize_CName_other) auto

text \<open>
  Claim C5. For every row of every table, \<^verbatim>\<open>standardize_CNames\<close> takes the last three
  characters off the CName when they are \<^verbatim>\<open>reg\<close>, and leaves the CName as it is when it
  does not end in \<^verbatim>\<open>reg\<close>, in particular when it has fewer than three characters;
  \<^verbatim>\<open>NGC1234reg\<close> becomes \<^verbatim>\<open>NGC1234\<close>, \<^verbatim>\<open>NGC1234\<close> stays and \<^verbatim>\<open>reg\<close> becomes the empty
  string.
\<close>

theorem standardize_CNames_suffix:
  assumes "i < length data"
  shows "(\<forall>p. CName (data ! i) = p @ ''reg'' \<longrightarrow> CName (standardize_CNames data ! i) = p) \<and>
         ((\<nexists>p. CName (data ! i) = p @ ''reg'') \<longrightarrow>
            CName (standardize_CNames data ! i) = CName (data ! i)) \<and>
         (length (CName (data ! i)) < 3 \<longrightarrow>
            CName (standardize_CNames data ! i) = CName (data ! i)) \<and>
         map CName (standardize_CNames
           (map (\<lambda>n. \<lparr>CName = n, Region = ''core'', R = 1\<rparr>) [''NGC1234reg'', ''NGC1234'', ''reg''])) =
           [''NGC1234'', ''NGC1234'', '''']"
proof (intro conjI allI impI)
  fix p assume "CName (data ! i) = p @ ''reg''"
  then show "CName (standardize_CNames data ! i) = p"
    using assms by (simp add: standardize_CNames_map standardize_CName_append)
next
  assume "\<nexists>p. CName (data ! i) = p @ ''reg''"
  then show "CName (standardize_CNames data ! i) = CName (data ! i)"
    using assms by (simp add: standardize_CNames_map standardize_CName_other)
next
  assume "length (CName (data ! i)) < 3"
  then show "CName (standardize_CNames data ! i) = CName (data ! i)"
    using assms by (simp add: standardize_CNames_map standardize_CName_short)
next
  show "map CName (standardize_CNames
           (map (\<lambda>n. \<lparr>CName = n, Region = ''core'', R = 1\<rparr>) [''NGC1234reg'', ''NGC1234'', ''reg''])) =
           [''NGC1234'', ''NGC1234'', '''']"
    by (simp add: standardize_CNames_map standardize_CName_def ends_with_reg_def)
qed

text \<open>A table with the names \<^verbatim>\<open>M87reg\<close>, which loses its suffix, and \<^verbatim>\<open>eg\<close>, which is too short.\<close>

theorem standardize_CNames_suffix_witness:
  "CName (standardize_CNames
      [\<lparr>CName = ''M87reg'', Region = ''core'', R = 1\<rparr>, \<lparr>CName = ''eg'', Region = ''icl'', R = 2\<rparr>] ! 0) = ''M87'' \<and>
   CName (standardize_CNames
      [\<lparr>CName = ''M87reg'', Region = ''core'', R = 1\<rparr>, \<lparr>CName = ''eg'', Region = ''icl'', R = 2\<rparr>] ! 1) = ''eg''"
proof -
  let ?d = "[\<lparr>CName = ''M87reg'', Region = ''core'', R = 1\<rparr>, \<lparr>CName = ''eg'', Region = ''icl'', R = 2\<rparr>]"
  have "CName (?d ! 0) = ''M87'' @ ''reg''" by simp
  moreover have "0 < length ?d" by simp
  ultimately have a: "CName (standardize_CNames ?d ! 0) = ''M87''"
    using standardize_CNames_suffix [of 0 ?d] by blast
  have "length (CName (?d ! 1)) < 3" by simp
  moreover have "1 < length ?d" by simp
  ultimately have "CName (standardize_CNames ?d ! 1) = CName (?d ! 1)"
    using standardize_CNames_suffix [of 1 ?d] by blast
  then show ?thesis using a by simp
qed

section \<open>What the loop over the galaxies changes\<close>

text \<open>
  The rows that \<^verbatim>\<open>fix_mult_core\<close> selects for a galaxy are rows of that galaxy with
  Region \<^verbatim>\<open>core\<close>; the inner loop writes the Region of those rows and nothing else, so
  the selection made for another galaxy later in the loop is what it would have been at
  the start.
\<close>

lemma zip_upt_nth: "zip [0..<length xs] xs = map (\<lambda>i. (i, xs ! i)) [0..<length xs]"
  by (rule nth_equalityI) simp_all

lemma select_core_index:
  "select_core df name =
     map (\<lambda>i. (i, df ! i))
       (filter (\<lambda>i. CName (df ! i) = name \<and> Region (df ! i) = ''core'') [0..<length df])"
  by (simp add: select_core_def zip_upt_nth filter_map comp_def)

lemma select_core_mem:
  "(i, r) \<in> set (select_core df name) \<longleftrightarrow>
     i < length df \<and> r = df ! i \<and> CName r = name \<and> Region r = ''core''"
  by (auto simp: select_core_index)

lemma label_step_length:
  "length (fold (\<lambda>k d. d[a k := h k d]) ks df) = length df"
  by (induction ks arbitrary: df) simp_all

lemma label_step_other:
  "j \<notin> a ` set ks \<Longrightarrow> fold (\<lambda>k d. d[a k := h k d]) ks df ! j = df ! j"
  by (induction ks arbitrary: df) auto

lemma update_Region_CName:
  "map CName (d[i := (d ! i)\<lparr>Region := l\<rparr>]) = map CName d"
proof (rule nth_equalityI)
  fix j assume "j < length (map CName (d[i := (d ! i)\<lparr>Region := l\<rparr>]))"
  then show "map CName (d[i := (d ! i)\<lparr>Region := l\<rparr>]) ! j = map CName d ! j"
    by (cases "j = i") simp_all
qed simp

lemma update_Region_R:
  "map R (d[i := (d ! i)\<lparr>Region := l\<rparr>]) = map R d"
proof (rule nth_equalityI)
  fix j assume "j < length (map R (d[i := (d ! i)\<lparr>Region := l\<rparr>]))"
  then show "map R (d[i := (d ! i)\<lparr>Region := l\<rparr>]) ! j = map R d ! j"
    by (cases "j = i") simp_all
qed simp

lemma rename_cores_length: "length (rename_cores temp_df df) = length df"
  unfolding rename_cores_def by (rule label_step_length)

lemma rename_cores_CName: "map CName (rename_cores temp_df df) = map CName df"
proof -
  have "map CName (fold (\<lambda>index d. d[fst (temp_df ! index) :=
          (d ! fst (temp_df ! index))\<lparr>Region := core_label index\<rparr>]) ks df) = map CName df" for ks
    by (induction ks arbitrary: df) (simp_all add: update_Region_CName)
  then show ?thesis by (simp add: rename_cores_def)
qed

lemma rename_cores_R: "map R (rename_cores temp_df df) = map R df"
proof -
  have "map R (fold (\<lambda>index d. d[fst (temp_df ! index) :=
          (d ! fst (temp_df ! index))\<lparr>Region := core_label index\<rparr>]) ks df) = map R df" for ks
    by (induction ks arbitrary: df) (simp_all add: update_Region_R)
  then show ?thesis by (simp add: rename_cores_def)
qed

lemma rename_cores_other:
  assumes "j \<notin> fst ` set temp_df"
  shows "rename_cores temp_df df ! j = df ! j"
proof -
  have "j \<notin> (\<lambda>k. fst (temp_df ! k)) ` set [0..<length temp_df]"
    using assms by (auto simp: image_iff)
  then show ?thesis
    unfolding rename_cores_def by (rule label_step_other)
qed

lemma fix_galaxy_length: "length (fix_galaxy name df) = length df"
  by (simp add: fix_galaxy_def Let_def rename_cores_length)

lemma fix_galaxy_CName: "map CName (fix_galaxy name df) = map CName df"
  by (simp add: fix_galaxy_def Let_def rename_cores_CName)

lemma fix_galaxy_R: "map R (fix_galaxy name df) = map R df"
  by (simp add: fix_galaxy_def Let_def rename_cores_R)

lemma fix_galaxy_other:
  assumes "CName (df ! j) \<noteq> name \<or> Region (df ! j) \<noteq> ''core''"
  shows "fix_galaxy name df ! j = df ! j"
proof -
  have "j \<notin> fst ` set (select_core df name)"
    using assms by (auto simp: select_core_mem)
  then show ?thesis
    by (simp add: fix_galaxy_def Let_def rename_cores_other)
qed

lemma fix_galaxy_few:
  "length (select_core df name) \<le> 1 \<Longrightarrow> fix_galaxy name df = df"
  by (simp add: fix_galaxy_def Let_def)

lemma select_core_cong:
  assumes len: "length df' = length df"
    and same: "\<And>j. j < length df \<Longrightarrow> CName (df ! j) = name \<or> CName (df' ! j) = name \<Longrightarrow> df' ! j = df ! j"
  shows "select_core df' name = select_core df name"
proof -
  let ?P = "\<lambda>d i. CName (d ! i) = name \<and> Region (d ! i) = ''core''"
  have P: "?P df' i = ?P df i" if "i < length df" for i
    using same [OF that] by metis
  have "filter (?P df') [0..<length df] = filter (?P df) [0..<length df]"
    by (rule filter_cong) (simp_all add: P)
  moreover have "map (\<lambda>i. (i, df' ! i)) (filter (?P df) [0..<length df]) =
                 map (\<lambda>i. (i, df ! i)) (filter (?P df) [0..<length df])"
    by (rule map_cong) (simp_all add: same)
  ultimately show ?thesis
    by (simp add: select_core_index len)
qed

lemma fix_galaxy_select_core:
  assumes "name' \<noteq> name"
  shows "select_core (fix_galaxy name df) name' = select_core df name'"
proof (rule select_core_cong)
  show "length (fix_galaxy name df) = length df" by (rule fix_galaxy_length)
next
  fix j assume j: "j < length df"
    and "CName (df ! j) = name' \<or> CName (fix_galaxy name df ! j) = name'"
  moreover have "CName (fix_galaxy name df ! j) = CName (df ! j)"
    using j fix_galaxy_CName [of name df] fix_galaxy_length [of name df]
    by (metis length_map nth_map)
  ultimately have "CName (df ! j) \<noteq> name" using assms by auto
  then show "fix_galaxy name df ! j = df ! j" by (simp add: fix_galaxy_other)
qed

lemma fold_fix_galaxy_length: "length (fold fix_galaxy names df) = length df"
  by (induction names arbitrary: df) (simp_all add: fix_galaxy_length)

lemma fold_fix_galaxy_CName: "map CName (fold fix_galaxy names df) = map CName df"
  by (induction names arbitrary: df) (simp_all add: fix_galaxy_CName)

lemma fold_fix_galaxy_R: "map R (fold fix_galaxy names df) = map R df"
  by (induction names arbitrary: df) (simp_all add: fix_galaxy_R)

lemma fold_fix_galaxy_few:
  assumes "i < length df" "length (select_core df (CName (df ! i))) \<le> 1"
  shows "fold fix_galaxy names df ! i = df ! i"
  using assms
proof (induction names arbitrary: df)
  case Nil
  then show ?case by simp
next
  case (Cons name names)
  let ?df' = "fix_galaxy name df"
  have row: "?df' ! i = df ! i"
  proof (cases "CName (df ! i) = name")
    case True
    then show ?thesis using Cons.prems by (simp add: fix_galaxy_few)
  next
    case False
    then show ?thesis by (simp add: fix_galaxy_other)
  qed
  have sel: "select_core ?df' (CName (df ! i)) = select_core df (CName (df ! i))"
  proof (cases "CName (df ! i) = name")
    case True
    then show ?thesis using Cons.prems by (simp add: fix_galaxy_few)
  next
    case False
    then show ?thesis by (simp add: fix_galaxy_select_core)
  qed
  have "fold fix_galaxy names ?df' ! i = ?df' ! i"
    using Cons.prems row sel by (intro Cons.IH) (simp_all add: fix_galaxy_length)
  then show ?case using row by simp
qed

lemma fold_fix_galaxy_not_core:
  assumes "Region (df ! i) \<noteq> ''core''"
  shows "fold fix_galaxy names df ! i = df ! i"
  using assms
  by (induction names arbitrary: df) (simp_all add: fix_galaxy_other)

section \<open>Multi-core disambiguation\<close>

text \<open>
  Claim C7. \<^verbatim>\<open>fix_mult_core\<close> writes the Region cell only: the CName and the R of every
  row are what they were. And for every galaxy whose rows with Region \<^verbatim>\<open>core\<close> are none
  or one, every row of that galaxy comes back as it was, so a galaxy with one core keeps
  the Region \<^verbatim>\<open>core\<close>.
\<close>

theorem fix_mult_core_frame:
  "map CName (fix_mult_core data) = map CName data \<and>
   map R (fix_mult_core data) = map R data \<and>
   (\<forall>i < length data.
      length (select_core data (CName (data ! i))) \<le> 1 \<longrightarrow> fix_mult_core data ! i = data ! i)"
  by (simp add: fix_mult_core_def fold_fix_galaxy_CName fold_fix_galaxy_R fold_fix_galaxy_few)

text \<open>Galaxy A has one core and galaxy B two: the core row of A is returned as it was.\<close>

theorem fix_mult_core_frame_witness:
  "length (select_core
      [\<lparr>CName = ''A'', Region = ''core'', R = 2\<rparr>, \<lparr>CName = ''B'', Region = ''core'', R = 3\<rparr>,
       \<lparr>CName = ''B'', Region = ''core'', R = 1\<rparr>, \<lparr>CName = ''A'', Region = ''outer'', R = 4\<rparr>] ''A'') \<le> 1 \<and>
   fix_mult_core
      [\<lparr>CName = ''A'', Region = ''core'', R = 2\<rparr>, \<lparr>CName = ''B'', Region = ''core'', R = 3\<rparr>,
       \<lparr>CName = ''B'', Region = ''core'', R = 1\<rparr>, \<lparr>CName = ''A'', Region = ''outer'', R = 4\<rparr>] ! 0 =
     \<lparr>CName = ''A'', Region = ''core'', R = 2\<rparr>"
proof -
  let ?d = "[\<lparr>CName = ''A'', Region = ''core'', R = 2\<rparr>, \<lparr>CName = ''B'', Region = ''core'', R = 3\<rparr>,
       \<lparr>CName = ''B'', Region = ''core'', R = 1\<rparr>, \<lparr>CName = ''A'', Region = ''outer'', R = 4\<rparr>]"
  have sel: "length (select_core ?d ''A'') \<le> 1"
    by (simp add: select_core_def upt_conv_Cons)
  then have "length (select_core ?d (CName (?d ! 0))) \<le> 1" by simp
  moreover have "0 < length ?d" by simp
  ultimately have "fix_mult_core ?d ! 0 = ?d ! 0"
    using fix_mult_core_frame [of ?d] by blast
  then show ?thesis using sel by simp
qed

text \<open>
  Claim C1, on the code. For the galaxy of the specification, with cores at the radii
  5, 1 and 3 in this order of rows, \<^verbatim>\<open>fix_mult_core\<close> gives the letters in the order of the
  rows: A to the radius 5, B to the radius 1 and C to the radius 3. The claim asks for A
  at the radius 1, B at 3 and C at 5.
\<close>

theorem fix_mult_core_row_order:
  "map (\<lambda>r. (R r, Region r)) (fix_mult_core
     [\<lparr>CName = ''G'', Region = ''core'', R = 5\<rparr>, \<lparr>CName = ''G'', Region = ''core'', R = 1\<rparr>,
      \<lparr>CName = ''G'', Region = ''core'', R = 3\<rparr>]) =
   [(5, ''coreA''), (1, ''coreB''), (3, ''coreC'')]"
  by (simp add: fix_mult_core_def fix_galaxy_def select_core_def rename_cores_def core_label_def
      char_of_eq_iff upt_conv_Cons Let_def)

section \<open>Rows and their order\<close>

text \<open>
  Claim C10. Each of the three transforms returns a table with as many rows as it was
  given, and in the same order: position by position, the cells of the columns that the
  transform does not write are the cells of the input. No row is added, removed or moved.
\<close>

theorem transforms_keep_rows:
  "length (standardize_region_names data) = length data \<and>
   map CName (standardize_region_names data) = map CName data \<and>
   map R (standardize_region_names data) = map R data \<and>
   length (fix_mult_core data) = length data \<and>
   map CName (fix_mult_core data) = map CName data \<and>
   map R (fix_mult_core data) = map R data \<and>
   length (standardize_CNames data) = length data \<and>
   map Region (standardize_CNames data) = map Region data \<and>
   map R (standardize_CNames data) = map R data"
  by (simp add: standardize_region_names_map standardize_CNames_map fix_mult_core_def
      fold_fix_galaxy_length fold_fix_galaxy_CName fold_fix_galaxy_R)

section \<open>The pipeline and its failures\<close>

text \<open>
  The loop over the galaxy names, with the accesses that can raise, fails at the first
  access to a column the frame does not have and otherwise computes what the loop on a
  complete frame computes. While the R column is absent no galaxy is renamed before the
  loop raises, so the test for a galaxy with two cores can be made on the table the loop
  starts from.
\<close>

lemma set_unique: "set (unique xs) = set xs"
  by (induction xs rule: unique.induct) auto

lemma fold_err_fix_galaxy_df:
  "fold_err (fix_galaxy_df cols) names df =
     (if names \<noteq> [] \<and> Region_col \<notin> cols then Inl (KeyError Region_col)
      else if R_col \<notin> cols \<and> (\<exists>name \<in> set names. 1 < length (select_core df name))
        then Inl (KeyError R_col)
      else Inr (fold fix_galaxy names df))"
proof (induction names arbitrary: df)
  case Nil
  then show ?case by simp
next
  case (Cons name names)
  show ?case
  proof (cases "Region_col \<in> cols")
    case False
    then have "fix_galaxy_df cols name df = Inl (KeyError Region_col)"
      by (simp add: fix_galaxy_df_def)
    then show ?thesis using False by simp
  next
    case Region: True
    show ?thesis
    proof (cases "R_col \<notin> cols \<and> 1 < length (select_core df name)")
      case True
      then have "fix_galaxy_df cols name df = Inl (KeyError R_col)"
        using Region by (simp add: fix_galaxy_df_def)
      then show ?thesis using Region True by auto
    next
      case False
      then have step: "fix_galaxy_df cols name df = Inr (fix_galaxy name df)"
        using Region by (auto simp: fix_galaxy_df_def)
      show ?thesis
      proof (cases "R_col \<in> cols")
        case True
        then show ?thesis using Region by (simp add: step Cons.IH)
      next
        case R: False
        then have "fix_galaxy name df = df" using False by (simp add: fix_galaxy_few)
        then show ?thesis using Region R False by (simp add: step Cons.IH)
      qed
    qed
  qed
qed

lemma select_core_Nil: "select_core [] name = []"
  by (simp add: select_core_def)

lemma select_core_names:
  "(\<exists>name \<in> set (map CName df). 1 < length (select_core df name)) \<longleftrightarrow>
   (\<exists>name. 1 < length (select_core df name))"
proof
  assume "\<exists>name. 1 < length (select_core df name)"
  then obtain name where n: "1 < length (select_core df name)" ..
  then have "select_core df name ! 0 \<in> set (select_core df name)"
    by (intro nth_mem) auto
  then obtain i r where "(i, r) \<in> set (select_core df name)"
    by (metis surj_pair)
  then have "i < length df" "CName (df ! i) = name"
    by (auto simp: select_core_mem)
  then have "name \<in> set (map CName df)"
    by (metis length_map nth_map nth_mem)
  then show "\<exists>name \<in> set (map CName df). 1 < length (select_core df name)"
    using n by blast
qed blast

lemma fix_mult_core_df_eq:
  "fix_mult_core_df data =
     (if CName_col \<notin> columns data then Inl (AttributeError CName_col)
      else if body data \<noteq> [] \<and> Region_col \<notin> columns data then Inl (KeyError Region_col)
      else if R_col \<notin> columns data \<and> (\<exists>name. 1 < length (select_core (body data) name))
        then Inl (KeyError R_col)
      else Inr (data\<lparr>body := fix_mult_core (body data)\<rparr>))"
proof -
  have "unique (map CName (body data)) \<noteq> [] \<longleftrightarrow> body data \<noteq> []"
    by (cases "body data") simp_all
  moreover have "(\<exists>name \<in> set (unique (map CName (body data))).
                    1 < length (select_core (body data) name)) \<longleftrightarrow>
                 (\<exists>name. 1 < length (select_core (body data) name))"
    by (simp only: set_unique select_core_names)
  ultimately show ?thesis
    by (simp add: fix_mult_core_df_def fold_err_fix_galaxy_df fix_mult_core_def select_core_Nil)
qed

lemma standardize_region_names_Nil: "standardize_region_names data = [] \<longleftrightarrow> data = []"
  by (simp add: standardize_region_names_map)

lemma fix_mult_core_Nil: "fix_mult_core data = [] \<longleftrightarrow> data = []"
  by (metis fix_mult_core_def fold_fix_galaxy_length length_0_conv)

lemma fix_data_cases:
  "fix_data read_csv csv =
     (case read_csv csv of
        Inl e \<Rightarrow> Inl e
      | Inr loaded \<Rightarrow>
          if body loaded \<noteq> [] \<and> Region_col \<notin> columns loaded then Inl (KeyError Region_col)
          else if CName_col \<notin> columns loaded then Inl (AttributeError CName_col)
          else if R_col \<notin> columns loaded \<and>
                  (\<exists>name. 1 < length (select_core (standardize_region_names (body loaded)) name))
            then Inl (KeyError R_col)
          else Inr (set_index (standardize_CNames (fix_mult_core
                 (standardize_region_names (body loaded))))))"
  by (simp add: fix_data_def standardize_region_names_df_def fix_mult_core_df_eq
      standardize_CNames_df_def set_index_df_def standardize_region_names_Nil fix_mult_core_Nil
      split: sum.splits)

text \<open>
  Claim C3, on the code. For the three rows of the scenario, \<^verbatim>\<open>fix_data\<close> returns the rows
  under the key \<^verbatim>\<open>A1\<close> with the regions \<^verbatim>\<open>coreA\<close>, \<^verbatim>\<open>coreB\<close>, \<^verbatim>\<open>outsk\<close> in this order:
  the row with radius 2 is \<^verbatim>\<open>coreA\<close> and the row with radius 1 is \<^verbatim>\<open>coreB\<close>, where the
  claim has \<^verbatim>\<open>coreB\<close>, \<^verbatim>\<open>coreA\<close>, \<^verbatim>\<open>outsk\<close>. Looking the result up under \<^verbatim>\<open>A1\<close> gives the
  three rows of the galaxy, as the claim says.
\<close>

theorem fix_data_scenario:
  "fix_data Inr \<lparr>columns = {CName_col, Region_col, R_col},
                body = [\<lparr>CName = ''A1reg'', Region = ''co'', R = 2\<rparr>,
                        \<lparr>CName = ''A1reg'', Region = ''co'', R = 1\<rparr>,
                        \<lparr>CName = ''A1reg'', Region = ''outsk'', R = 5\<rparr>]\<rparr> =
     Inr [(''A1'', ''coreA'', 2), (''A1'', ''coreB'', 1), (''A1'', ''outsk'', 5)] \<and>
   loc [(''A1'', ''coreA'', 2), (''A1'', ''coreB'', 1), (''A1'', ''outsk'', 5)] ''A1'' =
     [(''coreA'', 2), (''coreB'', 1), (''outsk'', 5)]"
  by (simp add: fix_data_cases standardize_region_names_map standardize_region_name_def
      fix_mult_core_def fix_galaxy_def select_core_def rename_cores_def core_label_def
      char_of_eq_iff upt_conv_Cons Let_def
      standardize_CNames_map standardize_CName_def ends_with_reg_def set_index_def loc_def)

text \<open>
  Claim C6, on the code. For the name \<^verbatim>\<open>Xregreg\<close>, which the claim itself names,
  \<^verbatim>\<open>fix_data\<close> returns the key \<^verbatim>\<open>Xreg\<close>: the loop of \<^verbatim>\<open>standardize_CNames\<close> tests the last
  three characters of a name once and removes them once, so the key still ends with
  \<^verbatim>\<open>reg\<close>. The claim, and the docstring of \<^verbatim>\<open>standardize_CNames\<close> (the names of the frame
  returned "no longer contain reg"), have no key of the result end with \<^verbatim>\<open>reg\<close>.
\<close>

theorem repeated_suffix_stays:
  "fix_data Inr \<lparr>columns = {CName_col, Region_col, R_col},
                body = [\<lparr>CName = ''Xregreg'', Region = ''co'', R = 1\<rparr>]\<rparr> =
     Inr [(''Xreg'', ''core'', 1)] \<and>
   ends_with_reg ''Xreg''"
  by (simp add: fix_data_cases standardize_region_names_map standardize_region_name_def
      fix_mult_core_def fix_galaxy_def select_core_def upt_conv_Cons Let_def
      standardize_CNames_map standardize_CName_def ends_with_reg_def set_index_def)

text \<open>
  Claim C8, as the code has it. \<^verbatim>\<open>fix_data\<close> catches nothing. When the loader raises, the
  caller gets the loader's error. When the loader gives a frame, \<^verbatim>\<open>fix_data\<close> raises in
  three cases, tried in this order: the frame has a row and no Region column; it has no
  CName column; it has no R column and, after the regions are canonical, some galaxy has
  two or more rows with Region \<^verbatim>\<open>core\<close>. In every other case, and so whenever the three
  columns are there, the result is the table after the three transforms, keyed by CName.
\<close>

theorem fix_data_errors:
  "(read_csv csv = Inl e \<longrightarrow> fix_data read_csv csv = Inl e) \<and>
   (read_csv csv = Inr loaded \<longrightarrow>
      fix_data read_csv csv =
        (if body loaded \<noteq> [] \<and> Region_col \<notin> columns loaded then Inl (KeyError Region_col)
         else if CName_col \<notin> columns loaded then Inl (AttributeError CName_col)
         else if R_col \<notin> columns loaded \<and>
                 (\<exists>name. 1 < length (select_core (standardize_region_names (body loaded)) name))
           then Inl (KeyError R_col)
         else Inr (set_index (standardize_CNames (fix_mult_core
                (standardize_region_names (body loaded)))))))"
  by (simp add: fix_data_cases)

text \<open>
  A loader that raises, whose error comes back; and a file without the R column in
  which galaxy \<^verbatim>\<open>A1reg\<close> has two cores, for which the sort raises.
\<close>

theorem fix_data_errors_witness:
  "fix_data (\<lambda>csv. Inl ReadError) ''galaxies.csv'' = Inl ReadError \<and>
   fix_data Inr \<lparr>columns = {CName_col, Region_col},
                body = [\<lparr>CName = ''A1reg'', Region = ''co'', R = 0\<rparr>,
                        \<lparr>CName = ''A1reg'', Region = ''co'', R = 0\<rparr>]\<rparr> = Inl (KeyError R_col)"
proof -
  let ?f = "\<lparr>columns = {CName_col, Region_col},
             body = [\<lparr>CName = ''A1reg'', Region = ''co'', R = 0\<rparr>,
                     \<lparr>CName = ''A1reg'', Region = ''co'', R = 0\<rparr>]\<rparr>"
  have two: "1 < length (select_core (standardize_region_names (body ?f)) ''A1reg'')"
    by (simp add: standardize_region_names_map standardize_region_name_def select_core_def
        upt_conv_Cons)
  have "fix_data (\<lambda>csv. Inl ReadError) ''galaxies.csv'' = Inl ReadError"
    using fix_data_errors [of "\<lambda>csv. Inl ReadError" "''galaxies.csv''" ReadError] by simp
  moreover have "fix_data Inr ?f = Inl (KeyError R_col)"
    using two fix_data_errors [of Inr ?f _ ?f] by auto
  ultimately show ?thesis by simp
qed

text \<open>
  Claim C8 as stated fails for a file that has no R column and one row: the claim has
  the pipeline fail for any missing column, and the code returns the keyed table, since
  the one place that names the R column is not reached. (The R cell written in the row
  stands for the cell that is not there.)
\<close>

theorem missing_R_accepted:
  "R_col \<notin> columns \<lparr>columns = {CName_col, Region_col},
                          body = [\<lparr>CName = ''A1reg'', Region = ''co'', R = 0\<rparr>]\<rparr> \<and>
   fix_data Inr \<lparr>columns = {CName_col, Region_col},
                body = [\<lparr>CName = ''A1reg'', Region = ''co'', R = 0\<rparr>]\<rparr> =
     Inr [(''A1'', ''core'', 0)]"
  by (simp add: fix_data_cases standardize_region_names_map standardize_region_name_def
      fix_mult_core_def fix_galaxy_def select_core_def upt_conv_Cons Let_def
      standardize_CNames_map standardize_CName_def ends_with_reg_def set_index_def)

end
